theory Spec2Isabelle
  imports Main "HOL-Library.AList"
begin

section \<open>JSON values and the JavaScript operators of server.js\<close>

text \<open>
  The data of server.js is untyped JSON: what \<^verbatim>\<open>JSON.parse\<close> returns for the text of
  questions.json and what the body parser puts into \<^verbatim>\<open>req.body\<close>. A number of
  JavaScript is a double; \<open>JNum n\<close> is the double whose value is the integer \<open>n\<close>
  (ids are \<^verbatim>\<open>Date.now()\<close> readings, likes are counters). Every integer from
  \<open>- (2 ^ 53)\<close> to \<open>2 ^ 53\<close> is a double; beyond, only every second, then every
  fourth integer is. Fractional numbers are outside the model.
  An object is the list of its own properties in insertion order. \<^verbatim>\<open>undefined\<close> is not a
  JSON value: a value that may be undefined is a \<open>json option\<close>, with \<open>None\<close> for
  \<^verbatim>\<open>undefined\<close>.
\<close>

datatype json =
    JNull
  | JBool bool
  | JNum int
  | JStr string
  | JArr "json list"
  | JObj "(string \<times> json) list"

type_synonym jsval = "json option"

text \<open>The exceptions that the code catches.\<close>

datatype js_error = TypeError | SyntaxError | ENOENT

text \<open>\<^verbatim>\<open>!v\<close> is \<open>\<not> truthy v\<close>: undefined, null, false, 0 and the empty string are falsy.\<close>

fun truthy :: "jsval \<Rightarrow> bool" where
  "truthy None = False"
| "truthy (Some JNull) = False"
| "truthy (Some (JBool b)) = b"
| "truthy (Some (JNum n)) = (n \<noteq> 0)"
| "truthy (Some (JStr s)) = (s \<noteq> [])"
| "truthy (Some (JArr xs)) = True"
| "truthy (Some (JObj kvs)) = True"

text \<open>\<^verbatim>\<open>a || b\<close>, and the same with a right operand that is never undefined.\<close>

definition or_else :: "jsval \<Rightarrow> jsval \<Rightarrow> jsval" where
  "or_else a b = (if truthy a then a else b)"

definition or_default :: "jsval \<Rightarrow> json \<Rightarrow> json" where
  "or_default a d = (case or_else a (Some d) of Some j \<Rightarrow> j | None \<Rightarrow> d)"

text \<open>
  \<^verbatim>\<open>v.k\<close> for the property names that server.js reads (\<^verbatim>\<open>questions\<close>, \<^verbatim>\<open>id\<close>,
  \<^verbatim>\<open>likes\<close>, \<^verbatim>\<open>answers\<close> and the fields of a request body), none of which is inherited
  from a prototype: an own property of an object, undefined on every other value, and a
  TypeError on null and undefined.
\<close>

fun field :: "json \<Rightarrow> string \<Rightarrow> jsval" where
  "field (JObj kvs) k = map_of kvs k"
| "field j k = None"

fun prop_get :: "jsval \<Rightarrow> string \<Rightarrow> js_error + jsval" where
  "prop_get None k = Inl TypeError"
| "prop_get (Some JNull) k = Inl TypeError"
| "prop_get (Some j) k = Inr (field j k)"

text \<open>
  \<^verbatim>\<open>o.k = v\<close> on an object: an existing property keeps its place, a new one goes to the
  end. The handlers assign only to values on which a property was found before, which
  are objects; on the other values the assignment leaves the serialised value as it is.
\<close>

fun set_field :: "json \<Rightarrow> string \<Rightarrow> json \<Rightarrow> json" where
  "set_field (JObj kvs) k v = JObj (AList.update k v kvs)"
| "set_field j k v = j"

text \<open>
  An object literal as \<^verbatim>\<open>JSON.stringify\<close> writes it: a property whose value is
  undefined is left out.
\<close>

fun object :: "(string \<times> jsval) list \<Rightarrow> (string \<times> json) list" where
  "object [] = []"
| "object ((k, None) # kvs) = object kvs"
| "object ((k, Some v) # kvs) = (k, v) # object kvs"

text \<open>
  \<^verbatim>\<open>v.push(x)\<close> and \<^verbatim>\<open>v.findIndex(f)\<close> are calls of an array method: on anything but
  an array the method is undefined (or, on an object parsed from JSON, not a function)
  and the call throws a TypeError.
\<close>

fun as_array :: "jsval \<Rightarrow> js_error + json list" where
  "as_array (Some (JArr xs)) = Inr xs"
| "as_array v = Inl TypeError"

text \<open>
  The conversions of the runtime that the code reaches through \<^verbatim>\<open>==\<close> and \<^verbatim>\<open>++\<close>
  are parameters of the model: \<open>StringToNumber s\<close> is \<^verbatim>\<open>Number(s)\<close> when that is an
  integer and \<open>None\<close> otherwise (NaN); \<open>ToPrimitive v\<close> is the string that an array or
  an object converts to, or the TypeError of the conversion.
\<close>

record runtime =
  StringToNumber :: "string \<Rightarrow> int option"
  ToPrimitive :: "json \<Rightarrow> js_error + string"

text \<open>\<^verbatim>\<open>v == s\<close> for a string \<open>s\<close> (the route parameter \<^verbatim>\<open>req.params.id\<close>).\<close>

fun loose_eq :: "runtime \<Rightarrow> jsval \<Rightarrow> string \<Rightarrow> js_error + bool" where
  "loose_eq rt None s = Inr False"
| "loose_eq rt (Some JNull) s = Inr False"
| "loose_eq rt (Some (JBool b)) s = Inr (StringToNumber rt s = Some (if b then 1 else 0))"
| "loose_eq rt (Some (JNum n)) s = Inr (StringToNumber rt s = Some n)"
| "loose_eq rt (Some (JStr t)) s = Inr (t = s)"
| "loose_eq rt (Some v) s =
     (case ToPrimitive rt v of Inl e \<Rightarrow> Inl e | Inr t \<Rightarrow> Inr (t = s))"

text \<open>\<^verbatim>\<open>Number(v)\<close>, with \<open>None\<close> for NaN.\<close>

fun to_number :: "runtime \<Rightarrow> jsval \<Rightarrow> js_error + int option" where
  "to_number rt None = Inr None"
| "to_number rt (Some JNull) = Inr (Some 0)"
| "to_number rt (Some (JBool b)) = Inr (Some (if b then 1 else 0))"
| "to_number rt (Some (JNum n)) = Inr (Some n)"
| "to_number rt (Some (JStr s)) = Inr (StringToNumber rt s)"
| "to_number rt (Some v) =
     (case ToPrimitive rt v of Inl e \<Rightarrow> Inl e | Inr t \<Rightarrow> Inr (StringToNumber rt t))"

text \<open>
  \<^verbatim>\<open>n + 1\<close> on a double with an integer value: exact while the sum is a double, that
  is from \<open>- (2 ^ 53)\<close> up to \<open>2 ^ 53 - 1\<close>. Beyond, the sum is rounded to the nearest
  double, a tie going to the double with the even significand: where the doubles are
  the even integers the sum lies half way between \<open>n\<close> and \<open>n + 2\<close>, and where they
  are further apart the nearest one is \<open>n\<close> itself.
\<close>

definition plus_one :: "int \<Rightarrow> int" where
  "plus_one n =
     (if - (2 ^ 53) \<le> n \<and> n < 2 ^ 53 then n + 1
      else if 2 ^ 53 \<le> n \<and> n < 2 ^ 54 \<and> n mod 4 = 2 then n + 2
      else if - (2 ^ 54) < n \<and> n < - (2 ^ 53) \<and> n mod 4 = 2 then n + 2
      else n)"

text \<open>
  The value that \<^verbatim>\<open>v++\<close> stores: \<^verbatim>\<open>Number(v) + 1\<close>. NaN is serialised as null, in the
  file and in a response.
\<close>

definition increment :: "runtime \<Rightarrow> jsval \<Rightarrow> js_error + json" where
  "increment rt v =
     (case to_number rt v of
        Inl e \<Rightarrow> Inl e
      | Inr None \<Rightarrow> Inr JNull
      | Inr (Some n) \<Rightarrow> Inr (JNum (plus_one n)))"

text \<open>
  \<^verbatim>\<open>questions.findIndex(q => q.id == id)\<close>: the first index whose element matches,
  \<open>None\<close> for \<open>-1\<close>; reading \<^verbatim>\<open>q.id\<close> of a null element throws.
\<close>

fun findIndex :: "runtime \<Rightarrow> json list \<Rightarrow> string \<Rightarrow> js_error + nat option" where
  "findIndex rt [] s = Inr None"
| "findIndex rt (q # qs) s =
     (case prop_get (Some q) ''id'' of
        Inl e \<Rightarrow> Inl e
      | Inr v \<Rightarrow>
          (case loose_eq rt v s of
             Inl e \<Rightarrow> Inl e
           | Inr True \<Rightarrow> Inr (Some 0)
           | Inr False \<Rightarrow>
               (case findIndex rt qs s of
                  Inl e \<Rightarrow> Inl e
                | Inr None \<Rightarrow> Inr None
                | Inr (Some i) \<Rightarrow> Inr (Some (Suc i)))))"

section \<open>The file questions.json\<close>

text \<open>
  The text of the file is seen through \<^verbatim>\<open>JSON.parse\<close>: \<open>Serialized j\<close> is a text that
  parses to \<open>j\<close>, as \<^verbatim>\<open>JSON.stringify(j, null, 2)\<close> produces; \<open>Unparsable s\<close> is the
  text \<open>s\<close> when \<^verbatim>\<open>JSON.parse\<close> throws on it, which includes the empty and the blank
  text. The disk holds the file, or no file, and counts the calls of \<^verbatim>\<open>fs.writeFile\<close>
  that have written their data. Writing is assumed to succeed.
\<close>

datatype file_text = Unparsable string | Serialized json

record disk =
  questions_file :: "file_text option"
  writes :: nat

definition fs_readFile :: "disk \<Rightarrow> js_error + file_text" where
  "fs_readFile d = (case questions_file d of None \<Rightarrow> Inl ENOENT | Some t \<Rightarrow> Inr t)"

definition fs_access :: "disk \<Rightarrow> js_error + unit" where
  "fs_access d = (case questions_file d of None \<Rightarrow> Inl ENOENT | Some t \<Rightarrow> Inr ())"

text \<open>
  \<^verbatim>\<open>fs.writeFile(file, data)\<close> opens the file with the flag \<^verbatim>\<open>w\<close>, which creates it
  or truncates it to length 0, and then writes the data into it. server.js writes
  questions.json itself, not a temporary file that is renamed afterwards, so between
  the two steps the file is there and empty.
\<close>

definition fs_truncate :: "disk \<Rightarrow> disk" where
  "fs_truncate d = d\<lparr>questions_file := Some (Unparsable [])\<rparr>"

definition fs_write_data :: "disk \<Rightarrow> file_text \<Rightarrow> disk" where
  "fs_write_data d t = d\<lparr>questions_file := Some t, writes := Suc (writes d)\<rparr>"

definition fs_writeFile :: "disk \<Rightarrow> file_text \<Rightarrow> disk" where
  "fs_writeFile d t = fs_write_data (fs_truncate d) t"

definition JSON_parse :: "file_text \<Rightarrow> js_error + json" where
  "JSON_parse t = (case t of Unparsable s \<Rightarrow> Inl SyntaxError | Serialized j \<Rightarrow> Inr j)"

definition JSON_stringify :: "json \<Rightarrow> file_text" where
  "JSON_stringify j = Serialized j"

definition white_space :: "char \<Rightarrow> bool" where
  "white_space c = (c \<in> set [CHR '' '', CHR 0x09, CHR 0x0A, CHR 0x0B, CHR 0x0C, CHR 0x0D])"

text \<open>\<^verbatim>\<open>!data.trim()\<close>\<close>

definition trim_empty :: "file_text \<Rightarrow> bool" where
  "trim_empty t = (case t of Unparsable s \<Rightarrow> list_all white_space s | Serialized j \<Rightarrow> False)"

definition default_structure :: json where
  "default_structure = JObj [(''questions'', JArr [])]"

definition readQuestionsFile :: "disk \<Rightarrow> json" where
  "readQuestionsFile d =
     (case fs_readFile d of
        Inl e \<Rightarrow> default_structure
      | Inr data \<Rightarrow>
          if trim_empty data then default_structure
          else (case JSON_parse data of
                  Inl e \<Rightarrow> default_structure
                | Inr j \<Rightarrow> j))"

definition writeQuestionsFile :: "disk \<Rightarrow> json \<Rightarrow> disk" where
  "writeQuestionsFile d questionsData = fs_writeFile d (JSON_stringify questionsData)"

definition initializeQuestionsFile :: "disk \<Rightarrow> disk" where
  "initializeQuestionsFile d =
     (case fs_access d of
        Inr u \<Rightarrow> d
      | Inl e \<Rightarrow> fs_writeFile d (JSON_stringify default_structure))"

section \<open>Requests, responses and the clock\<close>

text \<open>
  What a handler reads of a request: the parsed JSON body (an object, or an array,
  as the body parser leaves it in \<^verbatim>\<open>req.body\<close>), \<^verbatim>\<open>req.ip\<close>, the
  \<^verbatim>\<open>user-agent\<close> header and the route parameter \<^verbatim>\<open>:id\<close>, which is a string. The
  clock gives the readings that one run of a handler takes: \<^verbatim>\<open>Date.now()\<close>, the first
  \<^verbatim>\<open>new Date().toISOString()\<close> and the second one.
\<close>

record request =
  body :: json
  ip :: "string option"
  user_agent :: "string option"
  params_id :: string

record clock =
  Date_now :: int
  toISOString :: string
  toISOString_again :: string

record response =
  status :: nat
  sent :: json

definition failure :: "nat \<Rightarrow> string \<Rightarrow> response" where
  "failure code message =
     \<lparr>status = code, sent = JObj [(''success'', JBool False), (''message'', JStr message)]\<rparr>"

definition internal_error :: response where
  "internal_error = failure 500 ''Internal server error''"

section \<open>POST /api/submit-question\<close>

definition newQuestion :: "clock \<Rightarrow> request \<Rightarrow> json" where
  "newQuestion clk req =
     JObj (object
       [(''id'', Some (JNum (Date_now clk))),
        (''name'', Some (or_default (field (body req) ''name'') (JStr ''Anonymous''))),
        (''email'', Some (or_default (field (body req) ''email'') (JStr ''anonymous@example.com''))),
        (''question'', field (body req) ''question''),
        (''timestamp'', Some (or_default (field (body req) ''timestamp'') (JStr (toISOString clk)))),
        (''ip'', or_else (field (body req) ''ip'') (map_option JStr (ip req))),
        (''userAgent'', or_else (field (body req) ''userAgent'') (map_option JStr (user_agent req))),
        (''status'', Some (JStr ''pending'')),
        (''response'', Some JNull),
        (''respondedAt'', Some JNull),
        (''likes'', Some (JNum 0)),
        (''answers'', Some (JArr []))])"

text \<open>The body of the \<^verbatim>\<open>try\<close> block; \<open>Inl\<close> is an exception on its way to \<^verbatim>\<open>catch\<close>.\<close>

definition submit_question_try :: "clock \<Rightarrow> request \<Rightarrow> disk \<Rightarrow> js_error + response \<times> disk" where
  "submit_question_try clk req d =
     (case prop_get (Some (body req)) ''question'' of
        Inl e \<Rightarrow> Inl e
      | Inr question \<Rightarrow>
          if \<not> truthy question then Inr (failure 400 ''Question is required'', d)
          else
            let questionsData = readQuestionsFile d in
            (case prop_get (Some questionsData) ''questions'' of
               Inl e \<Rightarrow> Inl e
             | Inr v \<Rightarrow>
                 (case as_array v of
                    Inl e \<Rightarrow> Inl e
                  | Inr qs \<Rightarrow>
                      Inr (\<lparr>status = 200,
                            sent = JObj [(''success'', JBool True),
                                         (''message'', JStr ''Question submitted successfully''),
                                         (''questionId'', JNum (Date_now clk))]\<rparr>,
                           writeQuestionsFile d
                             (set_field questionsData ''questions''
                                (JArr (qs @ [newQuestion clk req])))))))"

definition post_submit_question :: "clock \<Rightarrow> request \<Rightarrow> disk \<Rightarrow> response \<times> disk" where
  "post_submit_question clk req d =
     (case submit_question_try clk req d of
        Inl e \<Rightarrow> (internal_error, d)
      | Inr r \<Rightarrow> r)"

text \<open>Submissions served one after the other, each with its own clock readings.\<close>

fun submit_all :: "(clock \<times> request) list \<Rightarrow> disk \<Rightarrow> response list \<times> disk" where
  "submit_all [] d = ([], d)"
| "submit_all ((clk, req) # calls) d =
     (case post_submit_question clk req d of
        (r, d') \<Rightarrow> (case submit_all calls d' of (rs, d'') \<Rightarrow> (r # rs, d'')))"

definition questionId :: "response \<Rightarrow> jsval" where
  "questionId r = field (sent r) ''questionId''"

section \<open>GET /api/questions\<close>

definition get_questions_try :: "disk \<Rightarrow> js_error + response \<times> disk" where
  "get_questions_try d =
     (let questionsData = readQuestionsFile d in
      case prop_get (Some questionsData) ''questions'' of
        Inl e \<Rightarrow> Inl e
      | Inr v \<Rightarrow> Inr (\<lparr>status = 200, sent = or_default v (JArr [])\<rparr>, d))"

definition get_questions :: "disk \<Rightarrow> response \<times> disk" where
  "get_questions d =
     (case get_questions_try d of
        Inl e \<Rightarrow> (internal_error, d)
      | Inr r \<Rightarrow> r)"

section \<open>POST /api/questions/:id/answer\<close>

definition newAnswer :: "clock \<Rightarrow> request \<Rightarrow> json" where
  "newAnswer clk req =
     JObj (object
       [(''id'', Some (JNum (Date_now clk))),
        (''content'', field (body req) ''answer''),
        (''author'', Some (or_default (field (body req) ''author'') (JStr ''Anonymous''))),
        (''isOwner'', Some (or_default (field (body req) ''isOwner'') (JBool False))),
        (''date'', Some (JStr (toISOString clk))),
        (''answers'', Some (JArr []))])"

text \<open>The three assignments under \<^verbatim>\<open>if (isOwner)\<close>.\<close>

definition owner_answered :: "clock \<Rightarrow> json \<Rightarrow> json \<Rightarrow> json" where
  "owner_answered clk answer q =
     set_field (set_field (set_field q ''status'' (JStr ''answered'')) ''response'' answer)
       ''respondedAt'' (JStr (toISOString_again clk))"

text \<open>The update of the question found, from \<^verbatim>\<open>if (!...answers)\<close> to the owner's part.\<close>

definition add_answer :: "clock \<Rightarrow> request \<Rightarrow> json \<Rightarrow> json \<Rightarrow> js_error + json" where
  "add_answer clk req answer q =
     (let q1 = (if \<not> truthy (field q ''answers'') then set_field q ''answers'' (JArr []) else q) in
      case as_array (field q1 ''answers'') of
        Inl e \<Rightarrow> Inl e
      | Inr answers \<Rightarrow>
          let q2 = set_field q1 ''answers'' (JArr (answers @ [newAnswer clk req])) in
          Inr (if truthy (field (body req) ''isOwner'') then owner_answered clk answer q2 else q2))"

definition post_answer_try :: "runtime \<Rightarrow> clock \<Rightarrow> request \<Rightarrow> disk \<Rightarrow> js_error + response \<times> disk" where
  "post_answer_try rt clk req d =
     (case prop_get (Some (body req)) ''answer'' of
        Inl e \<Rightarrow> Inl e
      | Inr None \<Rightarrow> Inr (failure 400 ''Answer is required'', d)
      | Inr (Some answer) \<Rightarrow>
          if \<not> truthy (Some answer) then Inr (failure 400 ''Answer is required'', d)
          else
            let questionsData = readQuestionsFile d in
            (case prop_get (Some questionsData) ''questions'' of
               Inl e \<Rightarrow> Inl e
             | Inr v \<Rightarrow>
                 (case as_array v of
                    Inl e \<Rightarrow> Inl e
                  | Inr qs \<Rightarrow>
                      (case findIndex rt qs (params_id req) of
                         Inl e \<Rightarrow> Inl e
                       | Inr None \<Rightarrow> Inr (failure 404 ''Question not found'', d)
                       | Inr (Some questionIndex) \<Rightarrow>
                           (case add_answer clk req answer (qs ! questionIndex) of
                              Inl e \<Rightarrow> Inl e
                            | Inr q' \<Rightarrow>
                                Inr (\<lparr>status = 200,
                                      sent = JObj [(''success'', JBool True),
                                                   (''message'', JStr ''Answer added successfully'')]\<rparr>,
                                     writeQuestionsFile d
                                       (set_field questionsData ''questions''
                                          (JArr (qs[questionIndex := q'])))))))))"

definition post_answer :: "runtime \<Rightarrow> clock \<Rightarrow> request \<Rightarrow> disk \<Rightarrow> response \<times> disk" where
  "post_answer rt clk req d =
     (case post_answer_try rt clk req d of
        Inl e \<Rightarrow> (internal_error, d)
      | Inr r \<Rightarrow> r)"

section \<open>POST /api/questions/:id/like\<close>

text \<open>\<^verbatim>\<open>if (!q.likes) q.likes = 0; q.likes++\<close> on the question found.\<close>

definition add_like :: "runtime \<Rightarrow> json \<Rightarrow> js_error + json" where
  "add_like rt q =
     (let q1 = (if \<not> truthy (field q ''likes'') then set_field q ''likes'' (JNum 0) else q) in
      case increment rt (field q1 ''likes'') of
        Inl e \<Rightarrow> Inl e
      | Inr n \<Rightarrow> Inr (set_field q1 ''likes'' n))"

text \<open>
  The handler awaits twice: once for the file to be read and once for it to be
  written. \<open>like_loaded\<close> is what runs from the moment \<^verbatim>\<open>readQuestionsFile\<close> has
  returned \<open>questionsData\<close>: it gives the response and, unless the handler returns
  early, the document that is handed to \<^verbatim>\<open>writeQuestionsFile\<close> before the response
  is sent.
\<close>

definition like_loaded :: "runtime \<Rightarrow> request \<Rightarrow> json \<Rightarrow> js_error + response \<times> json option" where
  "like_loaded rt req questionsData =
     (case prop_get (Some questionsData) ''questions'' of
        Inl e \<Rightarrow> Inl e
      | Inr v \<Rightarrow>
          (case as_array v of
             Inl e \<Rightarrow> Inl e
           | Inr qs \<Rightarrow>
               (case findIndex rt qs (params_id req) of
                  Inl e \<Rightarrow> Inl e
                | Inr None \<Rightarrow> Inr (failure 404 ''Question not found'', None)
                | Inr (Some questionIndex) \<Rightarrow>
                    (case add_like rt (qs ! questionIndex) of
                       Inl e \<Rightarrow> Inl e
                     | Inr q' \<Rightarrow>
                         Inr (\<lparr>status = 200,
                               sent = JObj (object [(''success'', Some (JBool True)),
                                                    (''likes'', field q' ''likes'')])\<rparr>,
                              Some (set_field questionsData ''questions''
                                      (JArr (qs[questionIndex := q']))))))))"

definition like_finish :: "runtime \<Rightarrow> request \<Rightarrow> json \<Rightarrow> disk \<Rightarrow> response \<times> disk" where
  "like_finish rt req questionsData d =
     (case like_loaded rt req questionsData of
        Inl e \<Rightarrow> (internal_error, d)
      | Inr (r, None) \<Rightarrow> (r, d)
      | Inr (r, Some doc) \<Rightarrow> (r, writeQuestionsFile d doc))"

definition post_like :: "runtime \<Rightarrow> request \<Rightarrow> disk \<Rightarrow> response \<times> disk" where
  "post_like rt req d = like_finish rt req (readQuestionsFile d) d"

text \<open>\<open>n\<close> like requests served one after the other.\<close>

fun like_times :: "runtime \<Rightarrow> request \<Rightarrow> nat \<Rightarrow> disk \<Rightarrow> disk" where
  "like_times rt req 0 d = d"
| "like_times rt req (Suc n) d = like_times rt req n (snd (post_like rt req d))"

subsection \<open>Like requests in flight together\<close>

text \<open>
  Node runs a handler until it awaits and then serves other requests. Nothing in
  server.js keeps a second request from starting while a first one waits, so the runs
  of several like requests interleave at their awaits. A task is a like request at one
  of its stages; a schedule names, step by step, the task that moves next. Reading the
  file is one step. Writing it is two, as \<^verbatim>\<open>fs.writeFile\<close> does it: the step that
  ends the handler's synchronous part truncates the file, and a later step writes the
  text, after which the response is sent.
\<close>

datatype like_task =
    Arrived request
  | Loaded request json
  | Writing response file_text
  | Responded response

fun step_like :: "runtime \<Rightarrow> like_task \<Rightarrow> disk \<Rightarrow> like_task \<times> disk" where
  "step_like rt (Arrived req) d = (Loaded req (readQuestionsFile d), d)"
| "step_like rt (Loaded req questionsData) d =
     (case like_loaded rt req questionsData of
        Inl e \<Rightarrow> (Responded internal_error, d)
      | Inr (r, None) \<Rightarrow> (Responded r, d)
      | Inr (r, Some doc) \<Rightarrow> (Writing r (JSON_stringify doc), fs_truncate d))"
| "step_like rt (Writing r t) d = (Responded r, fs_write_data d t)"
| "step_like rt (Responded r) d = (Responded r, d)"

fun run_schedule :: "runtime \<Rightarrow> nat list \<Rightarrow> like_task list \<times> disk \<Rightarrow> like_task list \<times> disk" where
  "run_schedule rt [] st = st"
| "run_schedule rt (k # ks) (tasks, d) =
     (if k < length tasks
      then (case step_like rt (tasks ! k) d of
              (t', d') \<Rightarrow> run_schedule rt ks (tasks[k := t'], d'))
      else run_schedule rt ks (tasks, d))"

text \<open>
  The schedule that serves \<open>n\<close> requests one at a time: request \<open>k\<close> takes its three
  steps before request \<open>k + 1\<close> starts.
\<close>

fun serial :: "nat \<Rightarrow> nat list" where
  "serial 0 = []"
| "serial (Suc n) = serial n @ [n, n, n]"

text \<open>The stored question that a route parameter finds, and its likes.\<close>

definition stored_question :: "runtime \<Rightarrow> string \<Rightarrow> disk \<Rightarrow> jsval" where
  "stored_question rt s d =
     (case as_array (field (readQuestionsFile d) ''questions'') of
        Inl e \<Rightarrow> None
      | Inr qs \<Rightarrow>
          (case findIndex rt qs s of
             Inr (Some i) \<Rightarrow> Some (qs ! i)
           | other \<Rightarrow> None))"

definition stored_likes :: "runtime \<Rightarrow> string \<Rightarrow> disk \<Rightarrow> jsval" where
  "stored_likes rt s d =
     (case stored_question rt s d of None \<Rightarrow> None | Some q \<Rightarrow> field q ''likes'')"

section \<open>A runtime for the examples\<close>

text \<open>
  The examples below use route parameters that are strings of decimal digits, which
  \<^verbatim>\<open>Number\<close> reads as the number they spell, and ids that are numbers, so that no
  array or object is converted; \<open>example_runtime\<close> agrees with Node on these.
\<close>

fun decimal :: "int \<Rightarrow> string \<Rightarrow> int option" where
  "decimal acc [] = Some acc"
| "decimal acc (c # cs) =
     (if of_char c \<in> {48 ..< 58 :: nat}
      then decimal (10 * acc + int (of_char c - (48 :: nat))) cs
      else None)"

definition example_runtime :: runtime where
  "example_runtime =
     \<lparr>StringToNumber = decimal 0, ToPrimitive = (\<lambda>v. Inr ''[object Object]'')\<rparr>"

definition example_clock :: clock where
  "example_clock =
     \<lparr>Date_now = 1700000000000, toISOString = ''2023-11-14T22:13:20.000Z'',
      toISOString_again = ''2023-11-14T22:13:20.001Z''\<rparr>"

definition example_request :: "json \<Rightarrow> string \<Rightarrow> request" where
  "example_request b s = \<lparr>body = b, ip = Some ''::1'', user_agent = None, params_id = s\<rparr>"

definition example_question :: "json \<Rightarrow> json" where
  "example_question likes =
     JObj [(''id'', JNum 7), (''question'', JStr ''Why?''), (''status'', JStr ''pending''),
           (''response'', JNull), (''respondedAt'', JNull), (''likes'', likes),
           (''answers'', JArr [])]"

definition example_disk :: "json \<Rightarrow> disk" where
  "example_disk doc = \<lparr>questions_file = Some (Serialized doc), writes = 1\<rparr>"

section \<open>Facts about the operators and the file\<close>

lemma fs_writeFile_done:
  "fs_writeFile d t = d\<lparr>questions_file := Some t, writes := Suc (writes d)\<rparr>"
  by (simp add: fs_writeFile_def fs_truncate_def fs_write_data_def)

lemma plus_one_exact: "- (2 ^ 53) \<le> n \<Longrightarrow> n < 2 ^ 53 \<Longrightarrow> plus_one n = n + 1"
  by (simp add: plus_one_def)

lemma plus_one_0: "plus_one 0 = 1"
  by (simp add: plus_one_def)

lemmas fs_defs = fs_readFile_def fs_access_def fs_writeFile_done fs_truncate_def
  fs_write_data_def JSON_parse_def JSON_stringify_def trim_empty_def

lemma read_after_write: "readQuestionsFile (writeQuestionsFile d j) = j"
  by (simp add: readQuestionsFile_def writeQuestionsFile_def fs_defs)

lemma field_set_other: "k' \<noteq> k \<Longrightarrow> field (set_field q k v) k' = field q k'"
  by (cases q) (simp_all add: update_conv')

lemma truthy_field_object: "truthy (field j k) \<Longrightarrow> \<exists>kvs. j = JObj kvs"
  by (cases j) simp_all

lemma prop_get_field: "j \<noteq> JNull \<Longrightarrow> prop_get (Some j) k = Inr (field j k)"
  by (cases j) simp_all

lemmas example_defs = example_clock_def example_request_def example_question_def
  example_disk_def example_runtime_def

lemmas handler_defs = post_like_def like_finish_def like_loaded_def add_like_def increment_def
  plus_one_def
  post_answer_def post_answer_try_def add_answer_def owner_answered_def newAnswer_def
  post_submit_question_def submit_question_try_def newQuestion_def
  readQuestionsFile_def writeQuestionsFile_def fs_defs stored_likes_def stored_question_def
  or_default_def or_else_def questionId_def

lemma object_Cons:
  "object ((k, v) # kvs) = (case v of None \<Rightarrow> object kvs | Some j \<Rightarrow> (k, j) # object kvs)"
  by (cases v) simp_all

lemma newQuestion_fields:
  "field (newQuestion clk req) ''id'' = Some (JNum (Date_now clk))"
  "field (newQuestion clk req) ''name'' = Some (or_default (field (body req) ''name'') (JStr ''Anonymous''))"
  "field (newQuestion clk req) ''email'' =
     Some (or_default (field (body req) ''email'') (JStr ''anonymous@example.com''))"
  "field (newQuestion clk req) ''question'' = field (body req) ''question''"
  "field (newQuestion clk req) ''status'' = Some (JStr ''pending'')"
  "field (newQuestion clk req) ''response'' = Some JNull"
  "field (newQuestion clk req) ''respondedAt'' = Some JNull"
  "field (newQuestion clk req) ''likes'' = Some (JNum 0)"
  "field (newQuestion clk req) ''answers'' = Some (JArr [])"
  by (simp_all add: newQuestion_def object_Cons split: option.splits)

lemma falsy_not_array: "\<not> truthy v \<Longrightarrow> as_array v = Inl TypeError"
  by (cases v rule: truthy.cases) simp_all

lemma loose_eq_defined: "loose_eq rt v s = Inr True \<Longrightarrow> v \<noteq> None"
  by (cases v) simp_all

lemma findIndex_found:
  "findIndex rt qs s = Inr (Some i) \<Longrightarrow>
     i < length qs \<and> (\<exists>kvs. qs ! i = JObj kvs) \<and> loose_eq rt (field (qs ! i) ''id'') s = Inr True"
proof (induction qs arbitrary: i)
  case Nil
  then show ?case by simp
next
  case (Cons q qs)
  show ?case
  proof (cases "loose_eq rt (field q ''id'') s = Inr True")
    case True
    then have "field q ''id'' \<noteq> None"
      by (rule loose_eq_defined)
    then obtain kvs where q: "q = JObj kvs"
      by (cases q) simp_all
    with True Cons.prems show ?thesis by simp
  next
    case False
    with Cons.prems obtain j where "findIndex rt qs s = Inr (Some j)" and "i = Suc j"
      by (cases q) (auto split: sum.splits bool.splits option.splits)
    with Cons.IH [of j] show ?thesis by simp
  qed
qed

lemma findIndex_update:
  "findIndex rt qs s = Inr (Some i) \<Longrightarrow> field q' ''id'' = field (qs ! i) ''id'' \<Longrightarrow>
     findIndex rt (qs[i := q']) s = Inr (Some i)"
proof (induction qs arbitrary: i)
  case Nil
  then show ?case by simp
next
  case (Cons q qs)
  show ?case
  proof (cases "loose_eq rt (field q ''id'') s = Inr True")
    case True
    then have "field q ''id'' \<noteq> None"
      by (rule loose_eq_defined)
    then obtain kvs where q: "q = JObj kvs"
      by (cases q) simp_all
    from True q Cons.prems(1) have i: "i = 0" by simp
    with Cons.prems(2) \<open>field q ''id'' \<noteq> None\<close> obtain kvs' where q': "q' = JObj kvs'"
      by (cases q') simp_all
    from True i q q' Cons.prems(2) show ?thesis by simp
  next
    case False
    with Cons.prems(1) obtain j where j: "findIndex rt qs s = Inr (Some j)" and i: "i = Suc j"
      by (cases q) (auto split: sum.splits bool.splits option.splits)
    from Cons.prems(2) i have "field q' ''id'' = field (qs ! j) ''id''" by simp
    with Cons.IH [OF j] have "findIndex rt (qs[j := q']) s = Inr (Some j)" .
    with False Cons.prems(1) i show ?thesis
      by (cases q) (auto split: sum.splits bool.splits option.splits)
  qed
qed

lemma questions_object:
  "field doc ''questions'' = Some v \<Longrightarrow>
     prop_get (Some doc) ''questions'' = Inr (Some v)
     \<and> field (set_field doc ''questions'' v') ''questions'' = Some v'"
  by (cases doc) (simp_all add: update_conv')

section \<open>Initialisation\<close>

text \<open>
  C8: initializeQuestionsFile is idempotent. Without a file it writes the empty
  collection; with a file, also one that does not parse, it leaves the disk as it is
  (no write happens), so a store holding N questions still holds them after any number
  of calls.
\<close>

theorem initializeQuestionsFile_idempotent:
  "initializeQuestionsFile (initializeQuestionsFile d) = initializeQuestionsFile d
   \<and> (questions_file d = None \<longrightarrow>
        questions_file (initializeQuestionsFile d) = Some (Serialized (JObj [(''questions'', JArr [])])))
   \<and> (questions_file d \<noteq> None \<longrightarrow> initializeQuestionsFile d = d)
   \<and> (questions_file d \<noteq> None \<longrightarrow>
        readQuestionsFile ((initializeQuestionsFile ^^ n) d) = readQuestionsFile d)"
proof -
  have keep: "initializeQuestionsFile d = d" if "questions_file d \<noteq> None" for d
    using that by (auto simp: initializeQuestionsFile_def fs_access_def split: option.splits)
  have fresh: "questions_file (initializeQuestionsFile d) = Some (Serialized default_structure)"
    if "questions_file d = None" for d
    using that by (simp add: initializeQuestionsFile_def fs_access_def fs_writeFile_done JSON_stringify_def)
  have idem: "initializeQuestionsFile (initializeQuestionsFile d) = initializeQuestionsFile d"
  proof (cases "questions_file d")
    case None
    then have "questions_file (initializeQuestionsFile d) \<noteq> None"
      by (simp add: fresh)
    then show ?thesis by (rule keep)
  next
    case (Some t)
    then show ?thesis by (simp add: keep)
  qed
  have iter: "(initializeQuestionsFile ^^ n) d = d" if "questions_file d \<noteq> None"
    using that by (induction n) (simp_all add: keep)
  show ?thesis
    using idem fresh [of d] keep [of d] iter
    by (simp add: default_structure_def)
qed

theorem initializeQuestionsFile_idempotent_witness:
  "questions_file \<lparr>questions_file = None, writes = 0\<rparr> = None
   \<and> initializeQuestionsFile \<lparr>questions_file = None, writes = 0\<rparr> =
       \<lparr>questions_file = Some (Serialized (JObj [(''questions'', JArr [])])), writes = 1\<rparr>
   \<and> questions_file \<lparr>questions_file = Some (Unparsable ''{oops''), writes = 4\<rparr> \<noteq> None
   \<and> initializeQuestionsFile \<lparr>questions_file = Some (Unparsable ''{oops''), writes = 4\<rparr> =
       \<lparr>questions_file = Some (Unparsable ''{oops''), writes = 4\<rparr>
   \<and> readQuestionsFile ((initializeQuestionsFile ^^ 2)
         \<lparr>questions_file = Some (Serialized (JObj [(''questions'', JArr [JNum 1, JNum 2])])), writes = 4\<rparr>) =
       JObj [(''questions'', JArr [JNum 1, JNum 2])]"
  using initializeQuestionsFile_idempotent [of "\<lparr>questions_file = None, writes = 0\<rparr>" 0]
    initializeQuestionsFile_idempotent [of "\<lparr>questions_file = Some (Unparsable ''{oops''), writes = 4\<rparr>" 0]
    initializeQuestionsFile_idempotent
      [of "\<lparr>questions_file = Some (Serialized (JObj [(''questions'', JArr [JNum 1, JNum 2])])), writes = 4\<rparr>" 2]
  by (simp add: initializeQuestionsFile_def readQuestionsFile_def fs_defs)

section \<open>Loading a missing or damaged file\<close>

text \<open>
  C7: readQuestionsFile never raises. When reading the file fails (there is no file) or
  parsing its text fails, the exception is caught and the result is the empty
  collection; a submission that follows succeeds, and the file then holds exactly the
  new question, which the next load returns.
\<close>

theorem load_fails_open:
  assumes "fs_readFile d = Inl e \<or> (\<exists>t. fs_readFile d = Inr t \<and> JSON_parse t = Inl e)"
  shows "readQuestionsFile d = JObj [(''questions'', JArr [])]
    \<and> (truthy (field (body req) ''question'') \<longrightarrow>
         post_submit_question clk req d =
           (\<lparr>status = 200,
             sent = JObj [(''success'', JBool True),
                          (''message'', JStr ''Question submitted successfully''),
                          (''questionId'', JNum (Date_now clk))]\<rparr>,
            \<lparr>questions_file = Some (Serialized (JObj [(''questions'', JArr [newQuestion clk req])])),
             writes = Suc (writes d)\<rparr>)
         \<and> readQuestionsFile (snd (post_submit_question clk req d)) =
             JObj [(''questions'', JArr [newQuestion clk req])])"
proof -
  have load: "readQuestionsFile d = default_structure"
    using assms by (auto simp: readQuestionsFile_def)
  have submit: "post_submit_question clk req d =
      (\<lparr>status = 200,
        sent = JObj [(''success'', JBool True),
                     (''message'', JStr ''Question submitted successfully''),
                     (''questionId'', JNum (Date_now clk))]\<rparr>,
       \<lparr>questions_file = Some (Serialized (JObj [(''questions'', JArr [newQuestion clk req])])),
        writes = Suc (writes d)\<rparr>)"
    if q: "truthy (field (body req) ''question'')"
  proof -
    from q obtain kvs where b: "body req = JObj kvs"
      using truthy_field_object by blast
    with q show ?thesis
      by (simp add: post_submit_question_def submit_question_try_def load default_structure_def
          writeQuestionsFile_def fs_writeFile_done JSON_stringify_def)
  qed
  have reread: "readQuestionsFile (snd (post_submit_question clk req d)) =
      JObj [(''questions'', JArr [newQuestion clk req])]"
    if q: "truthy (field (body req) ''question'')"
    by (simp add: submit [OF q] readQuestionsFile_def fs_defs)
  show ?thesis
    using load submit reread by (simp add: default_structure_def)
qed

theorem load_fails_open_witness:
  "fs_readFile \<lparr>questions_file = Some (Unparsable ''{oops''), writes = 4\<rparr> = Inr (Unparsable ''{oops'')
   \<and> JSON_parse (Unparsable ''{oops'') = Inl SyntaxError
   \<and> truthy (field (JObj [(''question'', JStr ''Why?'')]) ''question'')
   \<and> readQuestionsFile \<lparr>questions_file = Some (Unparsable ''{oops''), writes = 4\<rparr> =
       JObj [(''questions'', JArr [])]
   \<and> status (fst (post_submit_question
         \<lparr>Date_now = 1700000000000, toISOString = ''2023-11-14T22:13:20.000Z'',
          toISOString_again = ''2023-11-14T22:13:20.000Z''\<rparr>
         \<lparr>body = JObj [(''question'', JStr ''Why?'')], ip = None, user_agent = None, params_id = []\<rparr>
         \<lparr>questions_file = Some (Unparsable ''{oops''), writes = 4\<rparr>)) = 200
   \<and> field (readQuestionsFile (snd (post_submit_question
         \<lparr>Date_now = 1700000000000, toISOString = ''2023-11-14T22:13:20.000Z'',
          toISOString_again = ''2023-11-14T22:13:20.000Z''\<rparr>
         \<lparr>body = JObj [(''question'', JStr ''Why?'')], ip = None, user_agent = None, params_id = []\<rparr>
         \<lparr>questions_file = Some (Unparsable ''{oops''), writes = 4\<rparr>))) ''questions'' =
       Some (JArr [JObj [(''id'', JNum 1700000000000), (''name'', JStr ''Anonymous''),
          (''email'', JStr ''anonymous@example.com''), (''question'', JStr ''Why?''),
          (''timestamp'', JStr ''2023-11-14T22:13:20.000Z''), (''status'', JStr ''pending''),
          (''response'', JNull), (''respondedAt'', JNull), (''likes'', JNum 0),
          (''answers'', JArr [])]])"
  using load_fails_open
    [of "\<lparr>questions_file = Some (Unparsable ''{oops''), writes = 4\<rparr>" SyntaxError
        "\<lparr>body = JObj [(''question'', JStr ''Why?'')], ip = None, user_agent = None, params_id = []\<rparr>"
        "\<lparr>Date_now = 1700000000000, toISOString = ''2023-11-14T22:13:20.000Z'',
          toISOString_again = ''2023-11-14T22:13:20.000Z''\<rparr>"]
  by (simp add: readQuestionsFile_def fs_defs newQuestion_def or_default_def or_else_def)

section \<open>Submitting a question\<close>

text \<open>
  C5: a submission whose question is missing or empty (falsy) is refused with status
  400 and nothing is written. Otherwise, on a store that holds a questions array, the
  new question is appended at the end of the array and written, and its id is sent
  back: the id is the reading of Date.now(), name and email are the ones given or
  "Anonymous" and the placeholder address, status is pending, response and respondedAt
  are null, likes is 0 and answers is empty.
\<close>

theorem submit_question_spec:
  "(body req \<noteq> JNull \<longrightarrow> \<not> truthy (field (body req) ''question'') \<longrightarrow>
      post_submit_question clk req d = (failure 400 ''Question is required'', d))
   \<and> (truthy (field (body req) ''question'') \<longrightarrow>
       field (readQuestionsFile d) ''questions'' = Some (JArr qs) \<longrightarrow>
         post_submit_question clk req d =
           (\<lparr>status = 200,
             sent = JObj [(''success'', JBool True),
                          (''message'', JStr ''Question submitted successfully''),
                          (''questionId'', JNum (Date_now clk))]\<rparr>,
            writeQuestionsFile d
              (set_field (readQuestionsFile d) ''questions'' (JArr (qs @ [newQuestion clk req]))))
         \<and> field (readQuestionsFile (snd (post_submit_question clk req d))) ''questions'' =
             Some (JArr (qs @ [newQuestion clk req]))
         \<and> questionId (fst (post_submit_question clk req d)) = field (newQuestion clk req) ''id''
         \<and> field (newQuestion clk req) ''id'' = Some (JNum (Date_now clk))
         \<and> field (newQuestion clk req) ''question'' = field (body req) ''question''
         \<and> (truthy (field (body req) ''name'') \<longrightarrow>
               field (newQuestion clk req) ''name'' = field (body req) ''name'')
         \<and> (\<not> truthy (field (body req) ''name'') \<longrightarrow>
               field (newQuestion clk req) ''name'' = Some (JStr ''Anonymous''))
         \<and> (truthy (field (body req) ''email'') \<longrightarrow>
               field (newQuestion clk req) ''email'' = field (body req) ''email'')
         \<and> (\<not> truthy (field (body req) ''email'') \<longrightarrow>
               field (newQuestion clk req) ''email'' = Some (JStr ''anonymous@example.com''))
         \<and> field (newQuestion clk req) ''status'' = Some (JStr ''pending'')
         \<and> field (newQuestion clk req) ''response'' = Some JNull
         \<and> field (newQuestion clk req) ''respondedAt'' = Some JNull
         \<and> field (newQuestion clk req) ''likes'' = Some (JNum 0)
         \<and> field (newQuestion clk req) ''answers'' = Some (JArr []))"
proof -
  have invalid: "post_submit_question clk req d = (failure 400 ''Question is required'', d)"
    if "body req \<noteq> JNull" "\<not> truthy (field (body req) ''question'')"
    using that by (simp add: post_submit_question_def submit_question_try_def prop_get_field)
  have appended: "post_submit_question clk req d =
      (\<lparr>status = 200,
        sent = JObj [(''success'', JBool True),
                     (''message'', JStr ''Question submitted successfully''),
                     (''questionId'', JNum (Date_now clk))]\<rparr>,
       writeQuestionsFile d
         (set_field (readQuestionsFile d) ''questions'' (JArr (qs @ [newQuestion clk req]))))"
    if q: "truthy (field (body req) ''question'')"
      and c: "field (readQuestionsFile d) ''questions'' = Some (JArr qs)"
  proof -
    from q obtain kvs where b: "body req = JObj kvs"
      using truthy_field_object by blast
    from c obtain doc where r: "readQuestionsFile d = JObj doc"
      by (cases "readQuestionsFile d") simp_all
    from q b c r show ?thesis
      by (simp add: post_submit_question_def submit_question_try_def)
  qed
  have stored: "field (readQuestionsFile (snd (post_submit_question clk req d))) ''questions'' =
      Some (JArr (qs @ [newQuestion clk req]))"
    if q: "truthy (field (body req) ''question'')"
      and c: "field (readQuestionsFile d) ''questions'' = Some (JArr qs)"
  proof -
    from c obtain doc where r: "readQuestionsFile d = JObj doc"
      by (cases "readQuestionsFile d") simp_all
    show ?thesis
      by (simp add: appended [OF q c] read_after_write) (simp add: r update_conv')
  qed
  have returned: "questionId (fst (post_submit_question clk req d)) = field (newQuestion clk req) ''id''"
    if q: "truthy (field (body req) ''question'')"
      and c: "field (readQuestionsFile d) ''questions'' = Some (JArr qs)"
    by (simp add: appended [OF q c] questionId_def newQuestion_fields)
  have given: "field (newQuestion clk req) k = field (body req) k"
    if "truthy (field (body req) k)" "k = ''name'' \<or> k = ''email''" for k
    using that by (cases "field (body req) k") (auto simp: newQuestion_fields or_default_def or_else_def)
  have defaults:
    "\<not> truthy (field (body req) ''name'') \<Longrightarrow>
       field (newQuestion clk req) ''name'' = Some (JStr ''Anonymous'')"
    "\<not> truthy (field (body req) ''email'') \<Longrightarrow>
       field (newQuestion clk req) ''email'' = Some (JStr ''anonymous@example.com'')"
    by (simp_all add: newQuestion_fields or_default_def or_else_def)
  show ?thesis
    using invalid appended stored returned defaults given [of "''name''"] given [of "''email''"]
    by (simp add: newQuestion_fields)
qed

theorem submit_question_spec_witness:
  "JObj [] \<noteq> JNull
   \<and> \<not> truthy (field (JObj []) ''question'')
   \<and> post_submit_question example_clock (example_request (JObj []) [])
         (example_disk (JObj [(''questions'', JArr [])])) =
       (failure 400 ''Question is required'', example_disk (JObj [(''questions'', JArr [])]))
   \<and> \<not> truthy (field (JObj [(''question'', JStr [])]) ''question'')
   \<and> post_submit_question example_clock (example_request (JObj [(''question'', JStr [])]) [])
         (example_disk (JObj [(''questions'', JArr [])])) =
       (failure 400 ''Question is required'', example_disk (JObj [(''questions'', JArr [])]))
   \<and> truthy (field (JObj [(''question'', JStr ''How?'')]) ''question'')
   \<and> field (readQuestionsFile (example_disk (JObj [(''questions'', JArr [example_question (JNum 0)])])))
         ''questions'' = Some (JArr [example_question (JNum 0)])
   \<and> post_submit_question example_clock (example_request (JObj [(''question'', JStr ''How?'')]) [])
         (example_disk (JObj [(''questions'', JArr [example_question (JNum 0)])])) =
       (\<lparr>status = 200,
         sent = JObj [(''success'', JBool True),
                      (''message'', JStr ''Question submitted successfully''),
                      (''questionId'', JNum 1700000000000)]\<rparr>,
        \<lparr>questions_file = Some (Serialized (JObj [(''questions'',
           JArr [example_question (JNum 0),
                 JObj [(''id'', JNum 1700000000000), (''name'', JStr ''Anonymous''),
                       (''email'', JStr ''anonymous@example.com''), (''question'', JStr ''How?''),
                       (''timestamp'', JStr ''2023-11-14T22:13:20.000Z''), (''ip'', JStr ''::1''),
                       (''status'', JStr ''pending''), (''response'', JNull),
                       (''respondedAt'', JNull), (''likes'', JNum 0), (''answers'', JArr [])]])])),
         writes = 2\<rparr>)"
  using submit_question_spec
      [of "example_request (JObj []) []" example_clock "example_disk (JObj [(''questions'', JArr [])])" "[]"]
    submit_question_spec
      [of "example_request (JObj [(''question'', JStr [])]) []" example_clock
          "example_disk (JObj [(''questions'', JArr [])])" "[]"]
    submit_question_spec
      [of "example_request (JObj [(''question'', JStr ''How?'')]) []" example_clock
          "example_disk (JObj [(''questions'', JArr [example_question (JNum 0)])])"
          "[example_question (JNum 0)]"]
  by (simp add: example_defs readQuestionsFile_def writeQuestionsFile_def fs_defs newQuestion_def
      or_default_def or_else_def)

section \<open>Listing the questions\<close>

text \<open>
  C9, as amended: when the stored document parses to a value other than null whose
  questions property is missing or falsy (for example the empty object), the list
  handler answers with the empty list and status 200, while on the same store a valid
  submission, a valid answer and a like all fail with the internal error and write
  nothing.
\<close>

theorem list_without_questions:
  assumes "readQuestionsFile d \<noteq> JNull"
    and "\<not> truthy (field (readQuestionsFile d) ''questions'')"
  shows "get_questions d = (\<lparr>status = 200, sent = JArr []\<rparr>, d)
    \<and> (truthy (field (body req) ''question'') \<longrightarrow>
         post_submit_question clk req d = (internal_error, d))
    \<and> (truthy (field (body req) ''answer'') \<longrightarrow>
         post_answer rt clk req d = (internal_error, d))
    \<and> post_like rt req d = (internal_error, d)"
proof -
  note doc = prop_get_field [OF assms(1)] falsy_not_array [OF assms(2)]
  have listed: "get_questions d = (\<lparr>status = 200, sent = JArr []\<rparr>, d)"
    using assms(2) by (simp add: get_questions_def get_questions_try_def doc or_default_def or_else_def)
  have submit: "post_submit_question clk req d = (internal_error, d)"
    if q: "truthy (field (body req) ''question'')"
  proof -
    from q obtain kvs where "body req = JObj kvs"
      using truthy_field_object by blast
    with q show ?thesis
      by (simp add: post_submit_question_def submit_question_try_def doc)
  qed
  have answered: "post_answer rt clk req d = (internal_error, d)"
    if a: "truthy (field (body req) ''answer'')"
  proof -
    from a obtain kvs where "body req = JObj kvs"
      using truthy_field_object by blast
    with a show ?thesis
      by (cases "map_of kvs ''answer''") (simp_all add: post_answer_def post_answer_try_def doc)
  qed
  have liked: "post_like rt req d = (internal_error, d)"
    by (simp add: post_like_def like_finish_def like_loaded_def doc)
  show ?thesis
    using listed submit answered liked by simp
qed

theorem list_without_questions_witness:
  "readQuestionsFile (example_disk (JObj [])) \<noteq> JNull
   \<and> \<not> truthy (field (readQuestionsFile (example_disk (JObj []))) ''questions'')
   \<and> truthy (field (JObj [(''question'', JStr ''How?''), (''answer'', JStr ''So.'')]) ''question'')
   \<and> truthy (field (JObj [(''question'', JStr ''How?''), (''answer'', JStr ''So.'')]) ''answer'')
   \<and> get_questions (example_disk (JObj [])) = (\<lparr>status = 200, sent = JArr []\<rparr>, example_disk (JObj []))
   \<and> post_submit_question example_clock
         (example_request (JObj [(''question'', JStr ''How?''), (''answer'', JStr ''So.'')]) ''7'')
         (example_disk (JObj [])) = (internal_error, example_disk (JObj []))
   \<and> post_answer example_runtime example_clock
         (example_request (JObj [(''question'', JStr ''How?''), (''answer'', JStr ''So.'')]) ''7'')
         (example_disk (JObj [])) = (internal_error, example_disk (JObj []))
   \<and> post_like example_runtime
         (example_request (JObj [(''question'', JStr ''How?''), (''answer'', JStr ''So.'')]) ''7'')
         (example_disk (JObj [])) = (internal_error, example_disk (JObj []))"
  using list_without_questions
      [of "example_disk (JObj [])"
          "example_request (JObj [(''question'', JStr ''How?''), (''answer'', JStr ''So.'')]) ''7''"
          example_clock example_runtime]
  by (simp add: example_disk_def example_request_def readQuestionsFile_def fs_defs)

text \<open>
  C9 as it was stated, for every document that parses and holds no questions array,
  fails on the document \<^verbatim>\<open>null\<close>: reading its questions property throws,
  and the list handler answers with status 500.
\<close>

theorem list_null_document_counterexample:
  "JSON_parse (Serialized JNull) = Inr JNull
   \<and> field JNull ''questions'' = None
   \<and> get_questions \<lparr>questions_file = Some (Serialized JNull), writes = 0\<rparr> =
       (\<lparr>status = 500,
         sent = JObj [(''success'', JBool False), (''message'', JStr ''Internal server error'')]\<rparr>,
        \<lparr>questions_file = Some (Serialized JNull), writes = 0\<rparr>)"
  by (simp add: get_questions_def get_questions_try_def readQuestionsFile_def fs_defs
      internal_error_def failure_def)

section \<open>Unknown ids and empty answers\<close>

text \<open>
  C6: on a store whose questions array holds no question that the route parameter
  matches, the like handler and the answer handler (given a non-empty answer) respond
  with status 404; the answer handler given a missing or empty answer responds with
  status 400. In each case the disk is returned as it was: nothing is written.
\<close>

theorem unknown_id_not_found:
  "(field (readQuestionsFile d) ''questions'' = Some (JArr qs) \<longrightarrow>
    findIndex rt qs (params_id req) = Inr None \<longrightarrow>
      post_like rt req d = (failure 404 ''Question not found'', d)
      \<and> (truthy (field (body req) ''answer'') \<longrightarrow>
           post_answer rt clk req d = (failure 404 ''Question not found'', d)))
   \<and> (body req \<noteq> JNull \<longrightarrow> \<not> truthy (field (body req) ''answer'') \<longrightarrow>
        post_answer rt clk req d = (failure 400 ''Answer is required'', d))"
proof -
  have liked: "post_like rt req d = (failure 404 ''Question not found'', d)"
    if "field (readQuestionsFile d) ''questions'' = Some (JArr qs)"
      and "findIndex rt qs (params_id req) = Inr None"
    using that questions_object [OF that(1)]
    by (simp add: post_like_def like_finish_def like_loaded_def)
  have answered: "post_answer rt clk req d = (failure 404 ''Question not found'', d)"
    if c: "field (readQuestionsFile d) ''questions'' = Some (JArr qs)"
      and n: "findIndex rt qs (params_id req) = Inr None"
      and a: "truthy (field (body req) ''answer'')"
  proof -
    from a obtain kvs where "body req = JObj kvs"
      using truthy_field_object by blast
    with a n questions_object [OF c] show ?thesis
      by (cases "map_of kvs ''answer''") (simp_all add: post_answer_def post_answer_try_def)
  qed
  have invalid: "post_answer rt clk req d = (failure 400 ''Answer is required'', d)"
    if "body req \<noteq> JNull" "\<not> truthy (field (body req) ''answer'')"
    using that
    by (cases "field (body req) ''answer''")
      (simp_all add: post_answer_def post_answer_try_def prop_get_field)
  show ?thesis
    using liked answered invalid by simp
qed

theorem unknown_id_not_found_witness:
  "field (readQuestionsFile (example_disk (JObj [(''questions'', JArr [example_question (JNum 0)])])))
       ''questions'' = Some (JArr [example_question (JNum 0)])
   \<and> findIndex example_runtime [example_question (JNum 0)] ''9999999'' = Inr None
   \<and> truthy (field (JObj [(''answer'', JStr ''x'')]) ''answer'')
   \<and> post_like example_runtime (example_request (JObj [(''answer'', JStr ''x'')]) ''9999999'')
         (example_disk (JObj [(''questions'', JArr [example_question (JNum 0)])])) =
       (failure 404 ''Question not found'',
        example_disk (JObj [(''questions'', JArr [example_question (JNum 0)])]))
   \<and> post_answer example_runtime example_clock
         (example_request (JObj [(''answer'', JStr ''x'')]) ''9999999'')
         (example_disk (JObj [(''questions'', JArr [example_question (JNum 0)])])) =
       (failure 404 ''Question not found'',
        example_disk (JObj [(''questions'', JArr [example_question (JNum 0)])]))
   \<and> JObj [(''answer'', JStr [])] \<noteq> JNull
   \<and> \<not> truthy (field (JObj [(''answer'', JStr [])]) ''answer'')
   \<and> post_answer example_runtime example_clock
         (example_request (JObj [(''answer'', JStr [])]) ''7'')
         (example_disk (JObj [(''questions'', JArr [example_question (JNum 0)])])) =
       (failure 400 ''Answer is required'',
        example_disk (JObj [(''questions'', JArr [example_question (JNum 0)])]))"
  using unknown_id_not_found
      [of "example_disk (JObj [(''questions'', JArr [example_question (JNum 0)])])"
          "[example_question (JNum 0)]" example_runtime
          "example_request (JObj [(''answer'', JStr ''x'')]) ''9999999''" example_clock]
    unknown_id_not_found
      [of "example_disk (JObj [(''questions'', JArr [example_question (JNum 0)])])"
          "[example_question (JNum 0)]" example_runtime
          "example_request (JObj [(''answer'', JStr [])]) ''7''" example_clock]
  by (simp add: example_defs readQuestionsFile_def fs_defs)

section \<open>Liking a question\<close>

lemma add_like_falsy:
  "\<not> truthy (field (JObj kvs) ''likes'') \<Longrightarrow>
     add_like rt (JObj kvs) = Inr (set_field (JObj kvs) ''likes'' (JNum 1))"
  by (simp add: add_like_def increment_def plus_one_0 update_conv')

lemma add_like_number:
  "field (JObj kvs) ''likes'' = Some (JNum k) \<Longrightarrow>
     add_like rt (JObj kvs) = Inr (set_field (JObj kvs) ''likes'' (JNum (plus_one k)))"
  by (simp add: add_like_def increment_def update_conv')

lemma like_found:
  assumes "field (readQuestionsFile d) ''questions'' = Some (JArr qs)"
    and "findIndex rt qs (params_id req) = Inr (Some i)"
    and "add_like rt (qs ! i) = Inr q'"
  shows "post_like rt req d =
    (\<lparr>status = 200, sent = JObj (object [(''success'', Some (JBool True)), (''likes'', field q' ''likes'')])\<rparr>,
     writeQuestionsFile d (set_field (readQuestionsFile d) ''questions'' (JArr (qs[i := q']))))"
  using assms questions_object [OF assms(1)]
  by (simp add: post_like_def like_finish_def like_loaded_def)

lemma stored_question_written:
  assumes "field doc ''questions'' = Some (JArr qs)"
    and "findIndex rt qs s = Inr (Some i)"
    and "field q' ''id'' = field (qs ! i) ''id''"
  shows "stored_question rt s (writeQuestionsFile d (set_field doc ''questions'' (JArr (qs[i := q'])))) = Some q'"
  using questions_object [OF assms(1)] findIndex_update [OF assms(2,3)] findIndex_found [OF assms(2)]
  by (simp add: stored_question_def read_after_write)

lemma stored_question_found:
  assumes "stored_question rt s d = Some q"
  obtains qs i where "field (readQuestionsFile d) ''questions'' = Some (JArr qs)"
    and "findIndex rt qs s = Inr (Some i)" and "q = qs ! i"
proof -
  from assms obtain qs where qs: "as_array (field (readQuestionsFile d) ''questions'') = Inr qs"
    by (auto simp: stored_question_def split: sum.splits)
  then have doc: "field (readQuestionsFile d) ''questions'' = Some (JArr qs)"
    by (cases "field (readQuestionsFile d) ''questions''" rule: as_array.cases) simp_all
  from assms qs obtain i where "findIndex rt qs s = Inr (Some i)" "q = qs ! i"
    by (auto simp: stored_question_def split: sum.splits option.splits)
  with doc that show thesis by blast
qed

text \<open>
  C10: when the question that the route parameter finds has a likes property that is
  missing, null or otherwise falsy, the like handler counts from 0: it responds with
  status 200 and likes 1, and writes the question with likes 1.
\<close>

theorem like_without_count:
  assumes "field (readQuestionsFile d) ''questions'' = Some (JArr qs)"
    and "findIndex rt qs (params_id req) = Inr (Some i)"
    and "\<not> truthy (field (qs ! i) ''likes'')"
  shows "post_like rt req d =
      (\<lparr>status = 200, sent = JObj [(''success'', JBool True), (''likes'', JNum 1)]\<rparr>,
       writeQuestionsFile d
         (set_field (readQuestionsFile d) ''questions''
            (JArr (qs[i := set_field (qs ! i) ''likes'' (JNum 1)]))))
    \<and> stored_likes rt (params_id req) (snd (post_like rt req d)) = Some (JNum 1)"
proof -
  from findIndex_found [OF assms(2)] obtain kvs where q: "qs ! i = JObj kvs"
    by blast
  with assms(3) have l: "add_like rt (qs ! i) = Inr (set_field (qs ! i) ''likes'' (JNum 1))"
    by (simp add: add_like_falsy)
  have response: "post_like rt req d =
      (\<lparr>status = 200, sent = JObj [(''success'', JBool True), (''likes'', JNum 1)]\<rparr>,
       writeQuestionsFile d
         (set_field (readQuestionsFile d) ''questions''
            (JArr (qs[i := set_field (qs ! i) ''likes'' (JNum 1)]))))"
    by (simp add: like_found [OF assms(1,2) l]) (simp add: q update_conv')
  have "field (set_field (qs ! i) ''likes'' (JNum 1)) ''id'' = field (qs ! i) ''id''"
    by (simp add: field_set_other)
  from stored_question_written [OF assms(1,2) this]
  have "stored_likes rt (params_id req) (snd (post_like rt req d)) = Some (JNum 1)"
    by (simp add: response stored_likes_def) (simp add: q update_conv')
  with response show ?thesis by simp
qed

theorem like_without_count_witness:
  "field (readQuestionsFile (example_disk (JObj [(''questions'', JArr [example_question JNull])])))
       ''questions'' = Some (JArr [example_question JNull])
   \<and> findIndex example_runtime [example_question JNull] ''7'' = Inr (Some 0)
   \<and> \<not> truthy (field ([example_question JNull] ! 0) ''likes'')
   \<and> post_like example_runtime (example_request (JObj []) ''7'')
         (example_disk (JObj [(''questions'', JArr [example_question JNull])])) =
       (\<lparr>status = 200, sent = JObj [(''success'', JBool True), (''likes'', JNum 1)]\<rparr>,
        \<lparr>questions_file = Some (Serialized (JObj [(''questions'', JArr [example_question (JNum 1)])])),
         writes = 2\<rparr>)
   \<and> findIndex example_runtime [JObj [(''id'', JNum 7)]] ''7'' = Inr (Some 0)
   \<and> \<not> truthy (field ([JObj [(''id'', JNum 7)]] ! 0) ''likes'')
   \<and> post_like example_runtime (example_request (JObj []) ''7'')
         (example_disk (JObj [(''questions'', JArr [JObj [(''id'', JNum 7)]])])) =
       (\<lparr>status = 200, sent = JObj [(''success'', JBool True), (''likes'', JNum 1)]\<rparr>,
        \<lparr>questions_file = Some (Serialized (JObj [(''questions'',
           JArr [JObj [(''id'', JNum 7), (''likes'', JNum 1)]])])),
         writes = 2\<rparr>)"
  using like_without_count
      [of "example_disk (JObj [(''questions'', JArr [example_question JNull])])"
          "[example_question JNull]" example_runtime "example_request (JObj []) ''7''" 0]
    like_without_count
      [of "example_disk (JObj [(''questions'', JArr [JObj [(''id'', JNum 7)]])])"
          "[JObj [(''id'', JNum 7)]]" example_runtime "example_request (JObj []) ''7''" 0]
  by (simp add: example_defs readQuestionsFile_def writeQuestionsFile_def fs_defs)

section \<open>Several likes of one question\<close>

lemma like_counts_one:
  assumes "stored_likes rt (params_id req) d = Some (JNum k)"
  shows "stored_likes rt (params_id req) (snd (post_like rt req d)) = Some (JNum (plus_one k))"
proof -
  from assms obtain q where sq: "stored_question rt (params_id req) d = Some q"
    and lq: "field q ''likes'' = Some (JNum k)"
    by (auto simp: stored_likes_def split: option.splits)
  from sq obtain qs i where doc: "field (readQuestionsFile d) ''questions'' = Some (JArr qs)"
    and found: "findIndex rt qs (params_id req) = Inr (Some i)" and q: "q = qs ! i"
    by (rule stored_question_found)
  from findIndex_found [OF found] obtain kvs where obj: "qs ! i = JObj kvs"
    by blast
  with lq q have l: "add_like rt (qs ! i) = Inr (set_field (qs ! i) ''likes'' (JNum (plus_one k)))"
    by (simp add: add_like_number)
  have "field (set_field (qs ! i) ''likes'' (JNum (plus_one k))) ''id'' = field (qs ! i) ''id''"
    by (simp add: field_set_other)
  from stored_question_written [OF doc found this] show ?thesis
    by (simp add: like_found [OF doc found l] stored_likes_def) (simp add: obj update_conv')
qed

lemma like_times_counts:
  "stored_likes rt (params_id req) d = Some (JNum k) \<Longrightarrow> - (2 ^ 53) \<le> k \<Longrightarrow>
   k + int n \<le> 2 ^ 53 \<Longrightarrow>
     stored_likes rt (params_id req) (like_times rt req n d) = Some (JNum (k + int n))"
proof (induction n arbitrary: d k)
  case 0
  then show ?case by simp
next
  case (Suc n)
  from Suc.prems have exact: "plus_one k = k + 1"
    by (intro plus_one_exact) simp_all
  from like_counts_one [OF Suc.prems(1)]
  have "stored_likes rt (params_id req) (snd (post_like rt req d)) = Some (JNum (k + 1))"
    by (simp add: exact)
  moreover from Suc.prems have "- (2 ^ 53) \<le> k + 1" "k + 1 + int n \<le> 2 ^ 53"
    by simp_all
  ultimately have "stored_likes rt (params_id req) (like_times rt req n (snd (post_like rt req d))) =
      Some (JNum (k + 1 + int n))"
    by (rule Suc.IH)
  then show ?case by (simp add: add.assoc add.commute)
qed

lemma run_schedule_append:
  "run_schedule rt (ks @ ks') st = run_schedule rt ks' (run_schedule rt ks st)"
proof (induction ks arbitrary: st)
  case Nil
  then show ?case by simp
next
  case (Cons k ks)
  obtain tasks d where st: "st = (tasks, d)" by (cases st)
  show ?case
    by (simp add: st Cons.IH split: prod.splits)
qed

lemma run_schedule_tasks:
  "length (fst (run_schedule rt ks (tasks, d))) = length tasks
   \<and> (k \<notin> set ks \<longrightarrow> fst (run_schedule rt ks (tasks, d)) ! k = tasks ! k)"
proof (induction ks arbitrary: tasks d)
  case Nil
  then show ?case by simp
next
  case (Cons j ks)
  show ?case
    by (auto simp: Cons.IH split: prod.splits)
qed

lemma serial_below: "k \<in> set (serial n) \<Longrightarrow> k < n"
  by (induction n) auto

lemma like_times_end:
  "like_times rt req (Suc n) d = snd (post_like rt req (like_times rt req n d))"
  by (induction n arbitrary: d) simp_all

text \<open>The three steps of one request, taken together, are the handler.\<close>

lemma three_steps:
  assumes "n < length tasks" and "tasks ! n = Arrived req"
  shows "snd (run_schedule rt [n, n, n] (tasks, d)) = snd (post_like rt req d)"
proof (cases "like_loaded rt req (readQuestionsFile d)")
  case (Inl e)
  with assms show ?thesis
    by (simp add: post_like_def like_finish_def)
next
  case (Inr result)
  obtain r doc where result: "result = (r, doc)" by (cases result)
  with Inr assms show ?thesis
    by (cases doc)
      (simp_all add: post_like_def like_finish_def writeQuestionsFile_def fs_writeFile_def)
qed

lemma serial_run:
  "n \<le> length tasks \<Longrightarrow> (\<And>k. k < n \<Longrightarrow> tasks ! k = Arrived req) \<Longrightarrow>
     snd (run_schedule rt (serial n) (tasks, d)) = like_times rt req n d"
proof (induction n)
  case 0
  then show ?case by simp
next
  case (Suc n)
  obtain tasks1 d1 where st: "run_schedule rt (serial n) (tasks, d) = (tasks1, d1)"
    by (cases "run_schedule rt (serial n) (tasks, d)")
  from Suc have d1: "d1 = like_times rt req n d"
    by (simp add: st)
  have "n \<notin> set (serial n)"
    using serial_below by blast
  with run_schedule_tasks [of rt "serial n" tasks d n] st Suc.prems
  have t: "n < length tasks1" "tasks1 ! n = Arrived req"
    by simp_all
  have "snd (run_schedule rt [n, n, n] (tasks1, d1)) = snd (post_like rt req d1)"
    using t by (rule three_steps)
  then show ?case
    unfolding like_times_end by (simp add: run_schedule_append st d1 del: like_times.simps)
qed

text \<open>
  C2, as amended: when a stored question has likes \<open>k\<close>, \<open>n\<close> like requests that are
  served one after the other, each reading and writing the file before the next one
  starts, leave the stored likes at \<open>k + n\<close>, as long as the count stays between
  \<open>- (2 ^ 53)\<close> and \<open>2 ^ 53\<close>, where the addition of doubles is exact. This holds for
  the handler applied \<open>n\<close> times and for the schedule of the interleaving model that
  serves the requests one at a time.
\<close>

theorem serial_likes_counted:
  assumes "stored_likes rt (params_id req) d = Some (JNum k)"
    and "- (2 ^ 53) \<le> k" and "k + int n \<le> 2 ^ 53"
  shows "stored_likes rt (params_id req) (like_times rt req n d) = Some (JNum (k + int n))
    \<and> stored_likes rt (params_id req)
         (snd (run_schedule rt (serial n) (replicate n (Arrived req), d))) = Some (JNum (k + int n))"
proof -
  have "snd (run_schedule rt (serial n) (replicate n (Arrived req), d)) = like_times rt req n d"
    by (rule serial_run) simp_all
  with like_times_counts [OF assms] show ?thesis by simp
qed

theorem serial_likes_counted_witness:
  "stored_likes example_runtime ''7''
      (example_disk (JObj [(''questions'', JArr [example_question (JNum 2)])])) = Some (JNum 2)
   \<and> - (2 ^ 53) \<le> (2 :: int)
   \<and> (2 :: int) + int 3 \<le> 2 ^ 53
   \<and> stored_likes example_runtime ''7''
        (like_times example_runtime (example_request (JObj []) ''7'') 3
          (example_disk (JObj [(''questions'', JArr [example_question (JNum 2)])]))) = Some (JNum 5)
   \<and> stored_likes example_runtime ''7''
        (snd (run_schedule example_runtime (serial 3)
          (replicate 3 (Arrived (example_request (JObj []) ''7'')),
           example_disk (JObj [(''questions'', JArr [example_question (JNum 2)])])))) = Some (JNum 5)"
proof -
  have k: "stored_likes example_runtime (params_id (example_request (JObj []) ''7''))
      (example_disk (JObj [(''questions'', JArr [example_question (JNum 2)])])) = Some (JNum 2)"
    by (simp add: example_defs handler_defs)
  have lower: "- (2 ^ 53) \<le> (2 :: int)" and upper: "(2 :: int) + int 3 \<le> 2 ^ 53"
    by simp_all
  from serial_likes_counted [OF k lower upper] k show ?thesis
    by (simp add: example_request_def)
qed

text \<open>
  C2 as it was stated fails in two ways. For like requests in flight together,
  nothing in server.js keeps two requests apart: when both requests read the file
  before either writes it, both write likes 1 and both respond with 1, so of two likes
  of a question with 0 likes one is lost. And for every \<open>k\<close>: a question whose likes
  are \<open>2 ^ 53\<close> keeps them when it is liked once, since \<open>2 ^ 53 + 1\<close> is not a double
  and the sum is rounded back to \<open>2 ^ 53\<close>.
\<close>

theorem concurrent_likes_lost_counterexample:
  "stored_likes example_runtime ''7''
      (example_disk (JObj [(''questions'', JArr [example_question (JNum 0)])])) = Some (JNum 0)
   \<and> run_schedule example_runtime [0, 1, 0, 0, 1, 1]
        ([Arrived (example_request (JObj []) ''7''), Arrived (example_request (JObj []) ''7'')],
         example_disk (JObj [(''questions'', JArr [example_question (JNum 0)])])) =
       ([Responded \<lparr>status = 200, sent = JObj [(''success'', JBool True), (''likes'', JNum 1)]\<rparr>,
         Responded \<lparr>status = 200, sent = JObj [(''success'', JBool True), (''likes'', JNum 1)]\<rparr>],
        \<lparr>questions_file = Some (Serialized (JObj [(''questions'', JArr [example_question (JNum 1)])])),
         writes = 3\<rparr>)
   \<and> stored_likes example_runtime ''7''
        (snd (run_schedule example_runtime [0, 1, 0, 0, 1, 1]
          ([Arrived (example_request (JObj []) ''7''), Arrived (example_request (JObj []) ''7'')],
           example_disk (JObj [(''questions'', JArr [example_question (JNum 0)])])))) \<noteq>
       Some (JNum (0 + 2))
   \<and> stored_likes example_runtime ''7''
        (example_disk (JObj [(''questions'', JArr [example_question (JNum 9007199254740992)])])) =
       Some (JNum 9007199254740992)
   \<and> post_like example_runtime (example_request (JObj []) ''7'')
        (example_disk (JObj [(''questions'', JArr [example_question (JNum 9007199254740992)])])) =
       (\<lparr>status = 200,
         sent = JObj [(''success'', JBool True), (''likes'', JNum 9007199254740992)]\<rparr>,
        \<lparr>questions_file = Some (Serialized (JObj [(''questions'',
           JArr [example_question (JNum 9007199254740992)])])),
         writes = 2\<rparr>)
   \<and> stored_likes example_runtime ''7''
        (like_times example_runtime (example_request (JObj []) ''7'') 1
          (example_disk (JObj [(''questions'', JArr [example_question (JNum 9007199254740992)])]))) \<noteq>
       Some (JNum (9007199254740992 + 1))"
  by (simp add: example_defs handler_defs)

section \<open>Reading while the file is written\<close>




section \<open>The ids of submitted questions\<close>

lemma submit_sent_id:
  "status (fst (post_submit_question clk req d)) = 200 \<Longrightarrow>
     questionId (fst (post_submit_question clk req d)) = Some (JNum (Date_now clk))"
  by (auto simp: post_submit_question_def submit_question_try_def internal_error_def failure_def
      questionId_def Let_def split: sum.splits if_splits)

lemma submit_all_ids:
  "submit_all calls d = (rs, d') \<Longrightarrow> list_all (\<lambda>r. status r = 200) rs \<Longrightarrow>
     map questionId rs = map (\<lambda>c. Some (JNum (Date_now (fst c)))) calls"
proof (induction calls arbitrary: d rs d')
  case Nil
  then show ?case by simp
next
  case (Cons c calls)
  obtain clk req where c: "c = (clk, req)" by (cases c)
  obtain r d1 where one: "post_submit_question clk req d = (r, d1)"
    by (cases "post_submit_question clk req d")
  obtain rs1 d2 where more: "submit_all calls d1 = (rs1, d2)"
    by (cases "submit_all calls d1")
  from Cons.prems(1) c one more have rs: "rs = r # rs1" by simp
  with Cons.prems(2) have "status r = 200" "list_all (\<lambda>r. status r = 200) rs1"
    by simp_all
  with submit_sent_id [of clk req d] one Cons.IH [OF more] show ?case
    by (simp add: rs c)
qed

text \<open>
  C1, as amended: in a sequence of submissions that all succeed, the id sent back for
  each submission is the Date.now() reading of its run. So the ids are pairwise
  distinct when the readings are, and non-decreasing in submission order when the
  readings are.
\<close>

theorem submitted_ids_follow_clock:
  assumes "submit_all calls d = (rs, d')"
    and "list_all (\<lambda>r. status r = 200) rs"
  shows "map questionId rs = map (\<lambda>c. Some (JNum (Date_now (fst c)))) calls
    \<and> (distinct (map (\<lambda>c. Date_now (fst c)) calls) \<longrightarrow> distinct (map questionId rs))
    \<and> (sorted (map (\<lambda>c. Date_now (fst c)) calls) \<longrightarrow>
         sorted_wrt (\<lambda>a b. \<exists>m n. a = Some (JNum m) \<and> b = Some (JNum n) \<and> m \<le> n)
           (map questionId rs))"
proof -
  note ids = submit_all_ids [OF assms]
  have "distinct (map questionId rs)" if "distinct (map (\<lambda>c. Date_now (fst c)) calls)"
  proof -
    have "map questionId rs = map (\<lambda>n. Some (JNum n)) (map (\<lambda>c. Date_now (fst c)) calls)"
      by (simp add: ids)
    moreover have "inj (\<lambda>n. Some (JNum n))"
      by (simp add: inj_on_def)
    ultimately show ?thesis
      using that by (simp only: distinct_map) (auto intro: inj_on_subset)
  qed
  moreover have "sorted_wrt (\<lambda>a b. \<exists>m n. a = Some (JNum m) \<and> b = Some (JNum n) \<and> m \<le> n)
      (map questionId rs)"
    if "sorted (map (\<lambda>c. Date_now (fst c)) calls)"
    using that by (simp add: ids sorted_wrt_map)
  ultimately show ?thesis
    using ids by simp
qed

theorem submitted_ids_follow_clock_witness:
  "list_all (\<lambda>r. status r = 200) (fst (submit_all
      [(example_clock, example_request (JObj [(''question'', JStr ''Why?'')]) []),
       (example_clock\<lparr>Date_now := 1700000000001\<rparr>, example_request (JObj [(''question'', JStr ''How?'')]) [])]
      (example_disk (JObj [(''questions'', JArr [])]))))
   \<and> distinct [1700000000000, 1700000000001 :: int]
   \<and> sorted [1700000000000, 1700000000001 :: int]
   \<and> map questionId (fst (submit_all
      [(example_clock, example_request (JObj [(''question'', JStr ''Why?'')]) []),
       (example_clock\<lparr>Date_now := 1700000000001\<rparr>, example_request (JObj [(''question'', JStr ''How?'')]) [])]
      (example_disk (JObj [(''questions'', JArr [])])))) =
     [Some (JNum 1700000000000), Some (JNum 1700000000001)]
   \<and> distinct (map questionId (fst (submit_all
      [(example_clock, example_request (JObj [(''question'', JStr ''Why?'')]) []),
       (example_clock\<lparr>Date_now := 1700000000001\<rparr>, example_request (JObj [(''question'', JStr ''How?'')]) [])]
      (example_disk (JObj [(''questions'', JArr [])])))))"
proof -
  let ?calls = "[(example_clock, example_request (JObj [(''question'', JStr ''Why?'')]) []),
       (example_clock\<lparr>Date_now := 1700000000001\<rparr>, example_request (JObj [(''question'', JStr ''How?'')]) [])]"
  let ?d = "example_disk (JObj [(''questions'', JArr [])])"
  have run: "submit_all ?calls ?d = (fst (submit_all ?calls ?d), snd (submit_all ?calls ?d))"
    by simp
  have ok: "list_all (\<lambda>r. status r = 200) (fst (submit_all ?calls ?d))"
    by (simp add: example_defs handler_defs)
  from submitted_ids_follow_clock [OF run ok] ok show ?thesis
    by (simp add: example_clock_def)
qed

text \<open>
  C1 as it was stated fails in both parts. Two submissions in the same clock tick
  both succeed and both get the same id, so the ids are not pairwise distinct. And
  Date.now() is the wall clock, which the system may set back: a submission made
  after the clock went back one millisecond succeeds with a smaller id than the one
  before it, so the ids are not non-decreasing.
\<close>

theorem same_tick_ids_collide_counterexample:
  "map status (fst (submit_all
      [(example_clock, example_request (JObj [(''question'', JStr ''Why?'')]) []),
       (example_clock, example_request (JObj [(''question'', JStr ''How?'')]) [])]
      (example_disk (JObj [(''questions'', JArr [])])))) = [200, 200]
   \<and> map questionId (fst (submit_all
      [(example_clock, example_request (JObj [(''question'', JStr ''Why?'')]) []),
       (example_clock, example_request (JObj [(''question'', JStr ''How?'')]) [])]
      (example_disk (JObj [(''questions'', JArr [])])))) =
     [Some (JNum 1700000000000), Some (JNum 1700000000000)]
   \<and> \<not> distinct (map questionId (fst (submit_all
      [(example_clock, example_request (JObj [(''question'', JStr ''Why?'')]) []),
       (example_clock, example_request (JObj [(''question'', JStr ''How?'')]) [])]
      (example_disk (JObj [(''questions'', JArr [])])))))
   \<and> map status (fst (submit_all
      [(example_clock\<lparr>Date_now := 1700000000001\<rparr>,
        example_request (JObj [(''question'', JStr ''Why?'')]) []),
       (example_clock, example_request (JObj [(''question'', JStr ''How?'')]) [])]
      (example_disk (JObj [(''questions'', JArr [])])))) = [200, 200]
   \<and> map questionId (fst (submit_all
      [(example_clock\<lparr>Date_now := 1700000000001\<rparr>,
        example_request (JObj [(''question'', JStr ''Why?'')]) []),
       (example_clock, example_request (JObj [(''question'', JStr ''How?'')]) [])]
      (example_disk (JObj [(''questions'', JArr [])])))) =
     [Some (JNum 1700000000001), Some (JNum 1700000000000)]
   \<and> \<not> (1700000000001 :: int) \<le> 1700000000000"
  by (simp add: example_defs handler_defs)

section \<open>Answering a question\<close>

lemma add_answer_result:
  assumes "(\<not> truthy (field (JObj kvs) ''answers'') \<and> old = [])
      \<or> field (JObj kvs) ''answers'' = Some (JArr old)"
  shows "add_answer clk req a (JObj kvs) =
    Inr (if truthy (field (body req) ''isOwner'')
         then owner_answered clk a (set_field (JObj kvs) ''answers'' (JArr (old @ [newAnswer clk req])))
         else set_field (JObj kvs) ''answers'' (JArr (old @ [newAnswer clk req])))"
  using assms by (auto simp: add_answer_def update_conv')

lemma answer_found:
  assumes "field (body req) ''answer'' = Some a" and "truthy (Some a)"
    and "field (readQuestionsFile d) ''questions'' = Some (JArr qs)"
    and "findIndex rt qs (params_id req) = Inr (Some i)"
    and "add_answer clk req a (qs ! i) = Inr q'"
  shows "post_answer rt clk req d =
    (\<lparr>status = 200,
      sent = JObj [(''success'', JBool True), (''message'', JStr ''Answer added successfully'')]\<rparr>,
     writeQuestionsFile d (set_field (readQuestionsFile d) ''questions'' (JArr (qs[i := q']))))"
proof -
  from assms(1) obtain b where "body req = JObj b"
    by (cases "body req") simp_all
  with assms questions_object [OF assms(3)] show ?thesis
    by (simp add: post_answer_def post_answer_try_def)
qed

lemma newAnswer_content: "field (newAnswer clk req) ''content'' = field (body req) ''answer''"
  by (simp add: newAnswer_def object_Cons split: option.splits)

text \<open>
  C4: given a non-empty answer and a question that the route parameter finds, whose
  answers property is an array or is missing (falsy), the answer handler appends the
  new answer to the question's answers and writes the store. When isOwner is truthy
  the written question has status answered, the answer as its response and the second
  clock reading as respondedAt, whatever they were before; when isOwner is falsy or
  missing, status, response and respondedAt are the ones the question had.
\<close>

theorem owner_answer_sets_status:
  assumes "field (body req) ''answer'' = Some a" and "truthy (Some a)"
    and "field (readQuestionsFile d) ''questions'' = Some (JArr qs)"
    and "findIndex rt qs (params_id req) = Inr (Some i)"
    and "(\<not> truthy (field (qs ! i) ''answers'') \<and> old = [])
      \<or> field (qs ! i) ''answers'' = Some (JArr old)"
  shows "\<exists>q'. post_answer rt clk req d =
        (\<lparr>status = 200,
          sent = JObj [(''success'', JBool True), (''message'', JStr ''Answer added successfully'')]\<rparr>,
         writeQuestionsFile d (set_field (readQuestionsFile d) ''questions'' (JArr (qs[i := q']))))
      \<and> stored_question rt (params_id req) (snd (post_answer rt clk req d)) = Some q'
      \<and> field q' ''answers'' = Some (JArr (old @ [newAnswer clk req]))
      \<and> field (newAnswer clk req) ''content'' = Some a
      \<and> (truthy (field (body req) ''isOwner'') \<longrightarrow>
            field q' ''status'' = Some (JStr ''answered'')
            \<and> field q' ''response'' = Some a
            \<and> field q' ''respondedAt'' = Some (JStr (toISOString_again clk)))
      \<and> (\<not> truthy (field (body req) ''isOwner'') \<longrightarrow>
            field q' ''status'' = field (qs ! i) ''status''
            \<and> field q' ''response'' = field (qs ! i) ''response''
            \<and> field q' ''respondedAt'' = field (qs ! i) ''respondedAt'')"
proof -
  from findIndex_found [OF assms(4)] obtain kvs where q: "qs ! i = JObj kvs"
    by blast
  define q2 where "q2 = set_field (JObj kvs) ''answers'' (JArr (old @ [newAnswer clk req]))"
  define q' where "q' = (if truthy (field (body req) ''isOwner'') then owner_answered clk a q2 else q2)"
  from assms(5) have added: "add_answer clk req a (qs ! i) = Inr q'"
    unfolding q q'_def q2_def by (rule add_answer_result)
  note response = answer_found [OF assms(1-4) added]
  have q2: "field q2 ''answers'' = Some (JArr (old @ [newAnswer clk req]))"
    "field q2 ''id'' = field (qs ! i) ''id''"
    "field q2 ''status'' = field (qs ! i) ''status''"
    "field q2 ''response'' = field (qs ! i) ''response''"
    "field q2 ''respondedAt'' = field (qs ! i) ''respondedAt''"
    by (simp_all add: q2_def q update_conv')
  have owner: "field (owner_answered clk a q2) ''answers'' = field q2 ''answers''"
    "field (owner_answered clk a q2) ''id'' = field q2 ''id''"
    "field (owner_answered clk a q2) ''status'' = Some (JStr ''answered'')"
    "field (owner_answered clk a q2) ''response'' = Some a"
    "field (owner_answered clk a q2) ''respondedAt'' = Some (JStr (toISOString_again clk))"
    by (simp_all add: owner_answered_def q2_def update_conv')
  have "field q' ''id'' = field (qs ! i) ''id''"
    by (simp add: q'_def q2 owner)
  from stored_question_written [OF assms(3,4) this]
  have stored: "stored_question rt (params_id req) (snd (post_answer rt clk req d)) = Some q'"
    by (simp add: response)
  have answers: "field q' ''answers'' = Some (JArr (old @ [newAnswer clk req]))"
    by (simp add: q'_def q2 owner)
  have content: "field (newAnswer clk req) ''content'' = Some a"
    by (simp add: newAnswer_content assms(1))
  have by_owner: "field q' ''status'' = Some (JStr ''answered'')
      \<and> field q' ''response'' = Some a
      \<and> field q' ''respondedAt'' = Some (JStr (toISOString_again clk))"
    if "truthy (field (body req) ''isOwner'')"
    using that by (simp add: q'_def owner)
  have by_other: "field q' ''status'' = field (qs ! i) ''status''
      \<and> field q' ''response'' = field (qs ! i) ''response''
      \<and> field q' ''respondedAt'' = field (qs ! i) ''respondedAt''"
    if "\<not> truthy (field (body req) ''isOwner'')"
    using that by (simp add: q'_def q2)
  from response stored answers content by_owner by_other show ?thesis
    by blast
qed

theorem owner_answer_sets_status_witness:
  "field (JObj [(''answer'', JStr ''Because.''), (''isOwner'', JBool True)]) ''answer'' =
       Some (JStr ''Because.'')
   \<and> truthy (Some (JStr ''Because.''))
   \<and> truthy (field (JObj [(''answer'', JStr ''Because.''), (''isOwner'', JBool True)]) ''isOwner'')
   \<and> \<not> truthy (field (JObj [(''answer'', JStr ''Maybe.'')]) ''isOwner'')
   \<and> field (readQuestionsFile (example_disk (JObj [(''questions'', JArr [example_question (JNum 0)])])))
        ''questions'' = Some (JArr [example_question (JNum 0)])
   \<and> findIndex example_runtime [example_question (JNum 0)] ''7'' = Inr (Some 0)
   \<and> field ([example_question (JNum 0)] ! 0) ''answers'' = Some (JArr [])
   \<and> stored_question example_runtime ''7''
        (snd (post_answer example_runtime example_clock
          (example_request (JObj [(''answer'', JStr ''Because.''), (''isOwner'', JBool True)]) ''7'')
          (example_disk (JObj [(''questions'', JArr [example_question (JNum 0)])])))) =
       Some (JObj [(''id'', JNum 7), (''question'', JStr ''Why?''), (''status'', JStr ''answered''),
          (''response'', JStr ''Because.''), (''respondedAt'', JStr ''2023-11-14T22:13:20.001Z''),
          (''likes'', JNum 0),
          (''answers'', JArr [JObj [(''id'', JNum 1700000000000), (''content'', JStr ''Because.''),
             (''author'', JStr ''Anonymous''), (''isOwner'', JBool True),
             (''date'', JStr ''2023-11-14T22:13:20.000Z''), (''answers'', JArr [])]])])
   \<and> stored_question example_runtime ''7''
        (snd (post_answer example_runtime example_clock
          (example_request (JObj [(''answer'', JStr ''Maybe.'')]) ''7'')
          (example_disk (JObj [(''questions'', JArr [example_question (JNum 0)])])))) =
       Some (JObj [(''id'', JNum 7), (''question'', JStr ''Why?''), (''status'', JStr ''pending''),
          (''response'', JNull), (''respondedAt'', JNull), (''likes'', JNum 0),
          (''answers'', JArr [JObj [(''id'', JNum 1700000000000), (''content'', JStr ''Maybe.''),
             (''author'', JStr ''Anonymous''), (''isOwner'', JBool False),
             (''date'', JStr ''2023-11-14T22:13:20.000Z''), (''answers'', JArr [])]])])"
  using owner_answer_sets_status
      [of "example_request (JObj [(''answer'', JStr ''Because.''), (''isOwner'', JBool True)]) ''7''"
          "JStr ''Because.''" "example_disk (JObj [(''questions'', JArr [example_question (JNum 0)])])"
          "[example_question (JNum 0)]" example_runtime 0 "[]" example_clock]
    owner_answer_sets_status
      [of "example_request (JObj [(''answer'', JStr ''Maybe.'')]) ''7''"
          "JStr ''Maybe.''" "example_disk (JObj [(''questions'', JArr [example_question (JNum 0)])])"
          "[example_question (JNum 0)]" example_runtime 0 "[]" example_clock]
  by (simp add: example_defs handler_defs)

end
